theory Spec2Isabelle
  imports Main "HOL-Library.Sublist" "HOL-Library.Word"
begin

unbundle bit_operations_syntax

section \<open>Strings\<close>

text \<open>
  \<^verbatim>\<open>std::string\<close> is a sequence of bytes, modelled as \<^typ>\<open>string\<close>.  The three tests
  the signature checker makes on a log line are \<^verbatim>\<open>starts_with\<close>, \<^verbatim>\<open>ends_with\<close> and
  \<^verbatim>\<open>find(...) != npos\<close>.
\<close>

definition starts_with :: "string \<Rightarrow> string \<Rightarrow> bool" where
  "starts_with s x \<longleftrightarrow> length x \<le> length s \<and> take (length x) s = x"

definition ends_with :: "string \<Rightarrow> string \<Rightarrow> bool" where
  "ends_with s x \<longleftrightarrow> length x \<le> length s \<and> drop (length s - length x) s = x"

text \<open>
  \<^verbatim>\<open>s.find(x)\<close>: the position of the first occurrence of \<open>x\<close> in \<open>s\<close>;
  \<^verbatim>\<open>npos\<close> is \<open>None\<close>.
\<close>

fun str_find :: "string \<Rightarrow> string \<Rightarrow> nat option" where
  "str_find [] x = (if x = [] then Some 0 else None)"
| "str_find (c # cs) x =
     (if starts_with (c # cs) x then Some 0 else map_option Suc (str_find cs x))"

section \<open>Errors\<close>

text \<open>
  The exceptions of the source.  \<open>KeyImportError\<close> and \<open>SignatureCheckError\<close> carry the
  message template and its argument.  \<open>FileSystemError\<close> stands for the failure of
  \<^verbatim>\<open>utils::fs::File\<close> to open a path, \<open>DownloadError\<close> for a failing
  \<^verbatim>\<open>FileDownloader::download\<close>.
\<close>

datatype error =
    KeyImportError string string
  | SignatureCheckError string string
  | FileSystemError string
  | DownloadError string

definition dq :: string where
  "dq = [CHR 0x22]"

definition msg_not_armored :: string where
  "msg_not_armored = dq @ ''{}'' @ dq @ '': key is not an armored public key.''"

definition msg_root_dir :: string where
  "msg_root_dir = ''Failed to set rpm transaction rootDir '' @ dq @ ''{}'' @ dq @ ''.''"

definition msg_import :: string where
  "msg_import = ''Failed to import public key '' @ dq @ ''{}'' @ dq @ '' to rpmdb.''"

section \<open>The rpm engine\<close>

type_synonym byte = "8 word"

text \<open>Constants of rpm's headers used by the source.\<close>

definition RPMRC_OK :: int where "RPMRC_OK = 0"
definition RPMLOG_INFO :: int where "RPMLOG_INFO = 6"
definition RPMLOG_PRIMASK :: int where "RPMLOG_PRIMASK = 0x07"
definition RPMSIG_SIGNATURE_TYPE :: int where "RPMSIG_SIGNATURE_TYPE = 2"
definition RPMDBI_NAME :: int where "RPMDBI_NAME = 1000"

definition RPMLOG_PRI :: "int \<Rightarrow> int" where
  "RPMLOG_PRI p = p AND RPMLOG_PRIMASK"

definition RPMLOG_UPTO :: "int \<Rightarrow> int" where
  "RPMLOG_UPTO pri = 2 ^ (nat pri + 1) - 1"

text \<open>
  A record of the rpm database: its name and its version tag.  The trusted keys are the
  records named \<open>gpg-pubkey\<close>.
\<close>

record rpm_header =
  hdr_name :: string
  hdr_version :: string

text \<open>The calls made into the engine, in the order they are made.\<close>

datatype rpm_call =
    RpmtsCreate
  | RpmtsSetRootDir string
  | RpmlogSetMask int
  | RpmtsSetVfyLevel int
  | RpmcliVerifySignatures "string list"
  | RpmtsInitIterator int string
  | RpmdbNextIterator
  | RpmdbFreeIterator
  | RpmtsImportPubkey "byte list" nat

text \<open>
  The state of the engine that the source reads and changes: the process-wide log mask,
  the rpm database, and the trace of calls.
\<close>

record rpm_state =
  log_mask :: int
  rpmdb :: "rpm_header list"
  calls :: "rpm_call list"

text \<open>
  What the engine answers, which the source cannot know: the return code of
  \<^verbatim>\<open>rpmtsSetRootDir\<close> for a root directory; the return code of
  \<^verbatim>\<open>rpmcliVerifySignatures\<close> for a package path under the log mask in force,
  together with the log lines it emits, which the log guard collects; the return code of
  \<^verbatim>\<open>rpmtsImportPubkey\<close> with the database it leaves.
\<close>

record rpm_engine =
  set_root_dir :: "string \<Rightarrow> int"
  verify_signatures :: "int \<Rightarrow> string \<Rightarrow> int \<times> string list"
  import_pubkey :: "rpm_header list \<Rightarrow> byte list \<Rightarrow> nat \<Rightarrow> int \<times> rpm_header list"

definition call :: "rpm_call \<Rightarrow> rpm_state \<Rightarrow> rpm_state" where
  "call c st = st\<lparr>calls := calls st @ [c]\<rparr>"

text \<open>
  \<^verbatim>\<open>rpmlogSetMask\<close> installs a mask and returns the one it replaces, as the
  engine's interface \<^verbatim>\<open>set_log_mask(level) -> previous_level\<close> has it.
\<close>

definition rpmlogSetMask :: "int \<Rightarrow> rpm_state \<Rightarrow> int \<times> rpm_state" where
  "rpmlogSetMask new_mask st =
     (log_mask st, call (RpmlogSetMask new_mask) (st\<lparr>log_mask := new_mask\<rparr>))"

section \<open>Configuration and packages\<close>

datatype repo_type = AVAILABLE | SYSTEM | COMMANDLINE

record repo =
  get_type :: repo_type
  gpgcheck :: bool

record package =
  get_repo :: repo
  get_package_path :: string

record config =
  localpkg_gpgcheck :: bool
  installroot :: string

section \<open>RpmSignature\<close>

datatype CheckResult =
  OK | FAILED | FAILED_KEY_MISSING | FAILED_NOT_TRUSTED | FAILED_NOT_SIGNED

text \<open>
  \<^verbatim>\<open>create_transaction\<close>: a new session with the configured install root; raises
  \<open>SignatureCheckError\<close> when the root cannot be set.
\<close>

definition create_transaction ::
  "rpm_engine \<Rightarrow> config \<Rightarrow> rpm_state \<Rightarrow> (error + unit) \<times> rpm_state" where
  "create_transaction eng cfg st =
     (let st1 = call RpmtsCreate st;
          root_dir = installroot cfg;
          st2 = call (RpmtsSetRootDir root_dir) st1
      in if set_root_dir eng root_dir \<noteq> 0
         then (Inl (SignatureCheckError msg_root_dir root_dir), st2)
         else (Inr (), st2))"

text \<open>
  The loop over the collected log lines of \<^verbatim>\<open>check_package_signature\<close>, with its three
  flags, and the decision that follows the loop.
\<close>

fun parse_logs :: "string \<Rightarrow> string list \<Rightarrow> bool \<Rightarrow> bool \<Rightarrow> bool \<Rightarrow> CheckResult" where
  "parse_logs path [] missing_key not_trusted not_signed =
     (if not_trusted then FAILED_NOT_TRUSTED
      else if missing_key then FAILED_KEY_MISSING
      else if not_signed then FAILED_NOT_SIGNED
      else FAILED)"
| "parse_logs path (line # rest) missing_key not_trusted not_signed =
     (if starts_with line path then parse_logs path rest missing_key not_trusted not_signed
      else if str_find line '': BAD'' \<noteq> None then FAILED
      else if ends_with line '': NOKEY'' then parse_logs path rest True not_trusted not_signed
      else if ends_with line '': NOTTRUSTED'' then parse_logs path rest missing_key True not_signed
      else if ends_with line '': NOTFOUND'' then parse_logs path rest missing_key not_trusted True
      else if \<not> ends_with line '': OK'' then FAILED
      else parse_logs path rest missing_key not_trusted not_signed)"

text \<open>
  \<^verbatim>\<open>check_package_signature\<close>.  The log mask is raised and put back by two plain
  calls of \<^verbatim>\<open>rpmlogSetMask\<close>, not by a guard.  \<^verbatim>\<open>pkg.get_package_path()\<close>,
  called between them, is not among the sources; it is taken here to return the path, so
  this definition says nothing about a call that leaves between the two by an exception.
\<close>

definition check_package_signature ::
  "rpm_engine \<Rightarrow> config \<Rightarrow> package \<Rightarrow> rpm_state \<Rightarrow> (error + CheckResult) \<times> rpm_state" where
  "check_package_signature eng cfg pkg st =
     (let repo = get_repo pkg in
      if (if get_type repo = COMMANDLINE then \<not> localpkg_gpgcheck cfg else \<not> gpgcheck repo)
      then (Inr OK, st)
      else
        (case create_transaction eng cfg st of
           (Inl e, st1) \<Rightarrow> (Inl e, st1)
         | (Inr ts_ptr, st1) \<Rightarrow>
             (let (oldmask, st2) = rpmlogSetMask (RPMLOG_UPTO (RPMLOG_PRI RPMLOG_INFO)) st1;
                  st3 = call (RpmtsSetVfyLevel RPMSIG_SIGNATURE_TYPE) st2;
                  path = get_package_path pkg;
                  (rc, rpm_logs) = verify_signatures eng (log_mask st3) path;
                  st4 = call (RpmcliVerifySignatures [path]) st3;
                  (_, st5) = rpmlogSetMask oldmask st4
              in if rc = RPMRC_OK then (Inr OK, st5)
                 else (Inr (parse_logs path rpm_logs False False False), st5))))"

section \<open>The trust database\<close>

text \<open>
  \<^verbatim>\<open>rpmtsInitIterator(ts, RPMDBI_NAME, key, 0)\<close>: an iterator over the records of
  the database whose name is \<open>key\<close>, in the order of the database.
\<close>

definition rpmtsInitIterator :: "int \<Rightarrow> string \<Rightarrow> rpm_state \<Rightarrow> rpm_header list \<times> rpm_state" where
  "rpmtsInitIterator tag key st =
     (filter (\<lambda>h. hdr_name h = key) (rpmdb st), call (RpmtsInitIterator tag key) st)"

section \<open>KeyInfo\<close>

definition PGPARMOR_PUBKEY :: int where "PGPARMOR_PUBKEY = 2"

text \<open>An entry of \<^verbatim>\<open>repo::RepoGpgme::rawkey2infos\<close>.\<close>

record raw_key =
  get_id :: string
  get_user_id :: string
  get_fingerprint :: string

record KeyInfo =
  key_url :: string
  key_path :: string
  key_id :: string
  user_id :: string
  fingerprint :: string
  pkt_ptr :: "byte list"
  pkt_len :: nat

text \<open>The file system: the content of each path that exists.\<close>

type_synonym files = "string \<rightharpoonup> byte list"

text \<open>
  The collaborators of the constructor: \<^verbatim>\<open>utils::url::is_url\<close>; the path that
  \<^verbatim>\<open>TempFile\<close> chooses for a name prefix; what \<^verbatim>\<open>FileDownloader\<close> fetches
  for a URL (\<open>None\<close> when the download fails, which raises); the entries the key-info
  extractor finds in a file's content; the armor type, packet and packet length that
  \<^verbatim>\<open>pgpReadPkts\<close> reads from a file's content.
\<close>

record key_env =
  is_url :: "string \<Rightarrow> bool"
  temp_path :: "string \<Rightarrow> string"
  download :: "string \<Rightarrow> byte list option"
  rawkey2infos :: "byte list \<Rightarrow> raw_key list"
  pgpReadPkts :: "byte list \<Rightarrow> int \<times> byte list \<times> nat"

text \<open>
  Modelled from the spec: the constructor of \<^verbatim>\<open>utils::fs::TempFile\<close>, declared in
  \<^verbatim>\<open>utils/fs/temp.hpp\<close>, which is not among the sources.  It creates a temporary
  file, empty at first, at the path chosen for it.
\<close>

definition TempFile_create :: "string \<Rightarrow> files \<Rightarrow> files" where
  "TempFile_create p fs = fs(p \<mapsto> [])"

text \<open>
  Modelled from the spec: the destructor of \<^verbatim>\<open>utils::fs::TempFile\<close>, which is not
  among the sources either.  The temporary file is deleted when its owner's lifetime
  ends.
\<close>

definition TempFile_destroy :: "string \<Rightarrow> files \<Rightarrow> files" where
  "TempFile_destroy p fs = fs(p := None)"

text \<open>The loop over the extracted entries: each entry overwrites the three fields.\<close>

fun assign_key_infos ::
  "raw_key list \<Rightarrow> string \<times> string \<times> string \<Rightarrow> string \<times> string \<times> string" where
  "assign_key_infos [] ids = ids"
| "assign_key_infos (key_info # rest) ids =
     assign_key_infos rest (get_id key_info, get_user_id key_info, get_fingerprint key_info)"

text \<open>
  The constructor \<^verbatim>\<open>KeyInfo::KeyInfo\<close>, in its two parts.

  First the reference is resolved to a local path.  The local \<^verbatim>\<open>downloaded_key\<close>
  owns the temporary file of a remote key; it is returned here beside the path (\<open>None\<close>
  while it holds nothing), so that leaving the constructor can destroy it.
\<close>

definition resolve_key_path ::
  "key_env \<Rightarrow> string \<Rightarrow> files \<Rightarrow> (error + string) \<times> files \<times> string option" where
  "resolve_key_path env url fs =
     (if is_url env url then
        (if starts_with url ''file://'' then (Inr (drop 7 url), fs, None)
         else
           (let tmp = temp_path env ''rpmkey'';
                fs0 = TempFile_create tmp fs
            in case download env url of
                 None \<Rightarrow> (Inl (DownloadError url), fs0, Some tmp)
               | Some content \<Rightarrow> (Inr tmp, fs0(tmp \<mapsto> content), Some tmp)))
      else (Inr url, fs, None))"

text \<open>
  Then the file is opened (\<^verbatim>\<open>utils::fs::File\<close> raises when the path cannot be
  opened), the identity is taken from the extracted entries, and the packet is read.  The
  string members start empty.
\<close>

definition read_key :: "key_env \<Rightarrow> string \<Rightarrow> string \<Rightarrow> files \<Rightarrow> error + KeyInfo" where
  "read_key env url path fs =
     (case fs path of
        None \<Rightarrow> Inl (FileSystemError path)
      | Some content \<Rightarrow>
          (let (kid, uid, fpr) = assign_key_infos (rawkey2infos env content) ([], [], []);
               (armor, pkt, len) = pgpReadPkts env content
           in if armor \<noteq> PGPARMOR_PUBKEY
              then Inl (KeyImportError msg_not_armored url)
              else Inr \<lparr>key_url = url, key_path = path, key_id = kid, user_id = uid,
                        fingerprint = fpr, pkt_ptr = pkt, pkt_len = len\<rparr>))"

text \<open>
  The whole constructor.  \<^verbatim>\<open>downloaded_key\<close> is destroyed when the constructor is
  left, by its end or by an exception.
\<close>

definition KeyInfo_new :: "key_env \<Rightarrow> string \<Rightarrow> files \<Rightarrow> (error + KeyInfo) \<times> files" where
  "KeyInfo_new env url fs =
     (let (resolved, fs1, downloaded_key) = resolve_key_path env url fs;
          result = (case resolved of Inl e \<Rightarrow> Inl e | Inr path \<Rightarrow> read_key env url path fs1)
      in (result,
          case downloaded_key of None \<Rightarrow> fs1 | Some tmp \<Rightarrow> TempFile_destroy tmp fs1))"

definition get_short_key_id :: "KeyInfo \<Rightarrow> string" where
  "get_short_key_id key =
     (if length (key_id key) > 8 then drop (length (key_id key) - 8) (key_id key)
      else key_id key)"

section \<open>Key lookup and import\<close>

text \<open>The \<^verbatim>\<open>while\<close> loop of \<^verbatim>\<open>rpmdb_lookup\<close> over the iterator.\<close>

fun rpmdb_lookup_loop :: "string \<Rightarrow> rpm_header list \<Rightarrow> rpm_state \<Rightarrow> bool \<times> rpm_state" where
  "rpmdb_lookup_loop kid [] st = (False, call RpmdbNextIterator st)"
| "rpmdb_lookup_loop kid (h # mi) st =
     (let st1 = call RpmdbNextIterator st
      in if hdr_version h = kid then (True, st1) else rpmdb_lookup_loop kid mi st1)"

definition rpmdb_lookup :: "KeyInfo \<Rightarrow> rpm_state \<Rightarrow> bool \<times> rpm_state" where
  "rpmdb_lookup key st =
     (let (mi, st1) = rpmtsInitIterator RPMDBI_NAME ''gpg-pubkey'' st;
          kid = get_short_key_id key;
          (retval, st2) = rpmdb_lookup_loop kid mi st1
      in (retval, call RpmdbFreeIterator st2))"

definition key_present ::
  "rpm_engine \<Rightarrow> config \<Rightarrow> KeyInfo \<Rightarrow> rpm_state \<Rightarrow> (error + bool) \<times> rpm_state" where
  "key_present eng cfg key st =
     (case create_transaction eng cfg st of
        (Inl e, st1) \<Rightarrow> (Inl e, st1)
      | (Inr ts_ptr, st1) \<Rightarrow>
          (let (found, st2) = rpmdb_lookup key st1 in (Inr found, st2)))"

definition import_key ::
  "rpm_engine \<Rightarrow> config \<Rightarrow> KeyInfo \<Rightarrow> rpm_state \<Rightarrow> (error + bool) \<times> rpm_state" where
  "import_key eng cfg key st =
     (case create_transaction eng cfg st of
        (Inl e, st1) \<Rightarrow> (Inl e, st1)
      | (Inr ts_ptr, st1) \<Rightarrow>
          (let (found, st2) = rpmdb_lookup key st1
           in if \<not> found then
                (let (rc, db) = import_pubkey eng (rpmdb st2) (pkt_ptr key) (pkt_len key);
                     st3 = call (RpmtsImportPubkey (pkt_ptr key) (pkt_len key))
                             (st2\<lparr>rpmdb := db\<rparr>)
                 in if rc \<noteq> RPMRC_OK
                    then (Inl (KeyImportError msg_import (key_url key)), st3)
                    else (Inr True, st3))
              else (Inr False, st2)))"

section \<open>Test doubles\<close>

text \<open>
  An engine and a set of collaborators whose answers do not depend on their arguments,
  and the file system with no file, for evaluating the functions on concrete inputs.
\<close>

definition stub_engine ::
  "int \<Rightarrow> int \<Rightarrow> string list \<Rightarrow> int \<Rightarrow> rpm_header list \<Rightarrow> rpm_engine" where
  "stub_engine root_rc verify_rc logs import_rc imported =
     \<lparr>set_root_dir = (\<lambda>root. root_rc),
      verify_signatures = (\<lambda>m path. (verify_rc, logs)),
      import_pubkey = (\<lambda>db pkt len. (import_rc, db @ imported))\<rparr>"

definition stub_key_env ::
  "bool \<Rightarrow> string \<Rightarrow> byte list option \<Rightarrow> raw_key list \<Rightarrow> int \<times> byte list \<times> nat \<Rightarrow> key_env" where
  "stub_key_env url tmp fetched infos pkts =
     \<lparr>is_url = (\<lambda>u. url), temp_path = (\<lambda>name. tmp), download = (\<lambda>u. fetched),
      rawkey2infos = (\<lambda>content. infos), pgpReadPkts = (\<lambda>content. pkts)\<rparr>"

definition no_files :: files where
  "no_files = Map.empty"

section \<open>Properties of the string tests\<close>

lemma starts_with_prefix: "starts_with s x \<longleftrightarrow> prefix x s"
  unfolding starts_with_def prefix_def
  by (metis append_eq_conv_conj append_take_drop_id le_add1 length_append)

lemma ends_with_suffix: "ends_with s x \<longleftrightarrow> suffix x s"
proof
  assume "ends_with s x"
  then have "drop (length s - length x) s = x" by (simp add: ends_with_def)
  then have "s = take (length s - length x) s @ x" by (metis append_take_drop_id)
  then show "suffix x s" by (metis suffixI)
next
  assume "suffix x s"
  then obtain p where "s = p @ x" by (auto simp: suffix_def)
  then show "ends_with s x" by (simp add: ends_with_def)
qed

lemma str_find_None: "str_find s x = None \<longleftrightarrow> \<not> sublist x s"
  by (induction s) (simp_all add: starts_with_prefix sublist_Cons_right)

lemma suffix_excl:
  assumes "suffix x l" and "suffix y l" and "\<not> suffix x y" and "\<not> suffix y x"
  shows False
  using suffix_same_cases [OF assms(1,2)] assms(3,4) by blast

lemma nokey_not_nottrusted: "suffix '': NOKEY'' l \<Longrightarrow> \<not> suffix '': NOTTRUSTED'' l"
  by (rule notI, erule (1) suffix_excl) (simp_all add: suffix_to_prefix)

lemma nokey_not_notfound: "suffix '': NOKEY'' l \<Longrightarrow> \<not> suffix '': NOTFOUND'' l"
  by (rule notI, erule (1) suffix_excl) (simp_all add: suffix_to_prefix)

lemma nokey_not_ok: "suffix '': NOKEY'' l \<Longrightarrow> \<not> suffix '': OK'' l"
  by (rule notI, erule (1) suffix_excl) (simp_all add: suffix_to_prefix)

lemma nottrusted_not_notfound: "suffix '': NOTTRUSTED'' l \<Longrightarrow> \<not> suffix '': NOTFOUND'' l"
  by (rule notI, erule (1) suffix_excl) (simp_all add: suffix_to_prefix)

lemma nottrusted_not_ok: "suffix '': NOTTRUSTED'' l \<Longrightarrow> \<not> suffix '': OK'' l"
  by (rule notI, erule (1) suffix_excl) (simp_all add: suffix_to_prefix)

lemma notfound_not_ok: "suffix '': NOTFOUND'' l \<Longrightarrow> \<not> suffix '': OK'' l"
  by (rule notI, erule (1) suffix_excl) (simp_all add: suffix_to_prefix)

lemma parse_logs_bad:
  "\<exists>line\<in>set logs. \<not> prefix path line \<and> sublist '': BAD'' line \<Longrightarrow>
   parse_logs path logs mk nt ns = FAILED"
proof (induction logs arbitrary: mk nt ns)
  case Nil
  then show ?case by simp
next
  case (Cons line rest)
  show ?case
  proof (cases "\<not> prefix path line \<and> sublist '': BAD'' line")
    case True
    then show ?thesis by (simp add: starts_with_prefix str_find_None)
  next
    case False
    with Cons.prems have "\<exists>line\<in>set rest. \<not> prefix path line \<and> sublist '': BAD'' line"
      by auto
    then have "parse_logs path rest mk' nt' ns' = FAILED" for mk' nt' ns'
      by (rule Cons.IH)
    then show ?thesis by simp
  qed
qed


lemma parse_logs_no_bad:
  "\<forall>line\<in>set logs. \<not> prefix path line \<longrightarrow> \<not> sublist '': BAD'' line \<Longrightarrow>
   parse_logs path logs mk nt ns =
     (if \<exists>line\<in>set logs. \<not> prefix path line \<and> \<not> suffix '': OK'' line \<and>
           \<not> suffix '': NOKEY'' line \<and> \<not> suffix '': NOTTRUSTED'' line \<and>
           \<not> suffix '': NOTFOUND'' line
      then FAILED
      else if nt \<or> (\<exists>line\<in>set logs. \<not> prefix path line \<and> suffix '': NOTTRUSTED'' line)
      then FAILED_NOT_TRUSTED
      else if mk \<or> (\<exists>line\<in>set logs. \<not> prefix path line \<and> suffix '': NOKEY'' line)
      then FAILED_KEY_MISSING
      else if ns \<or> (\<exists>line\<in>set logs. \<not> prefix path line \<and> suffix '': NOTFOUND'' line)
      then FAILED_NOT_SIGNED
      else FAILED)"
proof (induction logs arbitrary: mk nt ns)
  case Nil
  then show ?case by simp
next
  case (Cons line rest)
  from Cons.prems have nb: "\<not> prefix path line \<Longrightarrow> \<not> sublist '': BAD'' line"
    and rest: "\<forall>line\<in>set rest. \<not> prefix path line \<longrightarrow> \<not> sublist '': BAD'' line"
    by simp_all
  note IH = Cons.IH [OF rest]
  consider (header) "prefix path line"
    | (nokey) "\<not> prefix path line" "suffix '': NOKEY'' line"
    | (nottrusted) "\<not> prefix path line" "suffix '': NOTTRUSTED'' line"
    | (notfound) "\<not> prefix path line" "suffix '': NOTFOUND'' line"
    | (ok) "\<not> prefix path line" "suffix '': OK'' line"
    | (other) "\<not> prefix path line" "\<not> suffix '': OK'' line" "\<not> suffix '': NOKEY'' line"
        "\<not> suffix '': NOTTRUSTED'' line" "\<not> suffix '': NOTFOUND'' line"
    by blast
  then show ?case
  proof cases
    case header
    then show ?thesis
      by (simp add: IH starts_with_prefix) blast?
  next
    case nokey
    with nb nokey_not_nottrusted [of line] nokey_not_notfound [of line] nokey_not_ok [of line]
    show ?thesis
      by (simp add: IH starts_with_prefix ends_with_suffix str_find_None) blast?
  next
    case nottrusted
    with nb nokey_not_nottrusted [of line] nottrusted_not_notfound [of line]
      nottrusted_not_ok [of line]
    have "\<not> suffix '': NOKEY'' line" "\<not> suffix '': NOTFOUND'' line" "\<not> suffix '': OK'' line"
      "\<not> sublist '': BAD'' line"
      by blast+
    with nottrusted show ?thesis
      by (simp add: IH starts_with_prefix ends_with_suffix str_find_None) blast?
  next
    case notfound
    with nb nokey_not_notfound [of line] nottrusted_not_notfound [of line]
      notfound_not_ok [of line]
    have "\<not> suffix '': NOKEY'' line" "\<not> suffix '': NOTTRUSTED'' line" "\<not> suffix '': OK'' line"
      "\<not> sublist '': BAD'' line"
      by blast+
    with notfound show ?thesis
      by (simp add: IH starts_with_prefix ends_with_suffix str_find_None) blast?
  next
    case ok
    with nb nokey_not_ok [of line] nottrusted_not_ok [of line] notfound_not_ok [of line]
    have "\<not> suffix '': NOKEY'' line" "\<not> suffix '': NOTTRUSTED'' line"
      "\<not> suffix '': NOTFOUND'' line" "\<not> sublist '': BAD'' line"
      by blast+
    with ok show ?thesis
      by (simp add: IH starts_with_prefix ends_with_suffix str_find_None) blast?
  next
    case other
    then show ?thesis
      by (auto simp add: starts_with_prefix ends_with_suffix)
  qed
qed


lemma elevated_mask: "RPMLOG_UPTO (RPMLOG_PRI RPMLOG_INFO) = 127"
  by (simp add: RPMLOG_UPTO_def RPMLOG_PRI_def RPMLOG_INFO_def RPMLOG_PRIMASK_def)

lemma check_package_signature_skip:
  assumes "if get_type (get_repo pkg) = COMMANDLINE then \<not> localpkg_gpgcheck cfg
           else \<not> gpgcheck (get_repo pkg)"
  shows "check_package_signature eng cfg pkg st = (Inr OK, st)"
  using assms by (simp add: check_package_signature_def Let_def split: if_splits)

lemma check_package_signature_no_session:
  assumes "if get_type (get_repo pkg) = COMMANDLINE then localpkg_gpgcheck cfg
           else gpgcheck (get_repo pkg)"
    and "set_root_dir eng (installroot cfg) \<noteq> 0"
  shows "check_package_signature eng cfg pkg st =
           (Inl (SignatureCheckError msg_root_dir (installroot cfg)),
            st\<lparr>calls := calls st @ [RpmtsCreate, RpmtsSetRootDir (installroot cfg)]\<rparr>)"
  using assms
  by (simp add: check_package_signature_def create_transaction_def call_def Let_def
      split: if_splits)

lemma check_package_signature_run:
  assumes "if get_type (get_repo pkg) = COMMANDLINE then localpkg_gpgcheck cfg
           else gpgcheck (get_repo pkg)"
    and "set_root_dir eng (installroot cfg) = 0"
    and "verify_signatures eng (RPMLOG_UPTO (RPMLOG_PRI RPMLOG_INFO)) (get_package_path pkg)
           = (rc, logs)"
  shows "check_package_signature eng cfg pkg st =
           (Inr (if rc = RPMRC_OK then OK
                 else parse_logs (get_package_path pkg) logs False False False),
            st\<lparr>calls := calls st @
               [RpmtsCreate, RpmtsSetRootDir (installroot cfg),
                RpmlogSetMask (RPMLOG_UPTO (RPMLOG_PRI RPMLOG_INFO)),
                RpmtsSetVfyLevel RPMSIG_SIGNATURE_TYPE,
                RpmcliVerifySignatures [get_package_path pkg],
                RpmlogSetMask (log_mask st)]\<rparr>)"
  using assms
  by (simp add: check_package_signature_def create_transaction_def call_def rpmlogSetMask_def
      Let_def split: if_splits)

section \<open>Properties of the lookup loop and of the constructor's parts\<close>

lemma rpmdb_lookup_loop_eq:
  "rpmdb_lookup_loop kid mi st =
     ((\<exists>h\<in>set mi. hdr_version h = kid),
      st\<lparr>calls := calls st @
        replicate (Suc (length (takeWhile (\<lambda>h. hdr_version h \<noteq> kid) mi))) RpmdbNextIterator\<rparr>)"
proof (induction mi arbitrary: st)
  case Nil
  then show ?case by (simp add: call_def)
next
  case (Cons h mi)
  show ?case
  proof (cases "hdr_version h = kid")
    case True
    then show ?thesis by (simp add: call_def)
  next
    case False
    then show ?thesis by (simp add: Cons.IH call_def)
  qed
qed

lemma rpmdb_lookup_eq:
  "rpmdb_lookup key st =
     ((\<exists>h\<in>set (rpmdb st). hdr_name h = ''gpg-pubkey'' \<and> hdr_version h = get_short_key_id key),
      st\<lparr>calls := calls st @ [RpmtsInitIterator RPMDBI_NAME ''gpg-pubkey''] @
        replicate (Suc (length (takeWhile (\<lambda>h. hdr_version h \<noteq> get_short_key_id key)
          (filter (\<lambda>h. hdr_name h = ''gpg-pubkey'') (rpmdb st))))) RpmdbNextIterator @
        [RpmdbFreeIterator]\<rparr>)"
  by (auto simp add: rpmdb_lookup_def rpmtsInitIterator_def rpmdb_lookup_loop_eq call_def
      Let_def)

lemma create_transaction_ok:
  "set_root_dir eng (installroot cfg) = 0 \<Longrightarrow>
   create_transaction eng cfg st =
     (Inr (), st\<lparr>calls := calls st @ [RpmtsCreate, RpmtsSetRootDir (installroot cfg)]\<rparr>)"
  by (simp add: create_transaction_def call_def)

lemma KeyInfo_new_resolved:
  assumes "resolve_key_path env url fs = (Inr path, fs1, tmp)"
  shows "fst (KeyInfo_new env url fs) = read_key env url path fs1"
  using assms by (simp add: KeyInfo_new_def)

lemma read_key_opened:
  assumes "fs path = Some content"
  shows "read_key env url path fs =
     (if fst (pgpReadPkts env content) \<noteq> PGPARMOR_PUBKEY
      then Inl (KeyImportError msg_not_armored url)
      else Inr \<lparr>key_url = url, key_path = path,
                key_id = fst (assign_key_infos (rawkey2infos env content) ([], [], [])),
                user_id = fst (snd (assign_key_infos (rawkey2infos env content) ([], [], []))),
                fingerprint = snd (snd (assign_key_infos (rawkey2infos env content) ([], [], []))),
                pkt_ptr = fst (snd (pgpReadPkts env content)),
                pkt_len = snd (snd (pgpReadPkts env content))\<rparr>)"
  using assms by (simp add: read_key_def Let_def split: prod.splits)

section \<open>Signature checking\<close>

text \<open>
  C1.  When the check is required, the session is created, the engine reports
  non-success, and some collected log line that does not begin with the package's path
  contains \<open>: BAD\<close>, the result is \<open>FAILED\<close>, whatever the other lines say.
\<close>

theorem check_package_signature_bad_is_failed:
  assumes "if get_type (get_repo pkg) = COMMANDLINE then localpkg_gpgcheck cfg
           else gpgcheck (get_repo pkg)"
    and "set_root_dir eng (installroot cfg) = 0"
    and "verify_signatures eng (RPMLOG_UPTO (RPMLOG_PRI RPMLOG_INFO)) (get_package_path pkg)
           = (rc, logs)"
    and "rc \<noteq> RPMRC_OK"
    and "\<exists>line\<in>set logs. \<not> prefix (get_package_path pkg) line \<and> sublist '': BAD'' line"
  shows "fst (check_package_signature eng cfg pkg st) = Inr FAILED"
  using assms(4) parse_logs_bad [OF assms(5)]
  by (simp add: check_package_signature_run [OF assms(1-3)])

theorem check_package_signature_bad_is_failed_witness:
  "fst (check_package_signature
     (stub_engine 0 1 [''/p.rpm:'', ''    Header RSA signature: NOTTRUSTED'',
        ''    Header SHA256 digest: BAD'', ''    DSA signature: NOKEY'',
        ''    MD5 digest: NOTFOUND''] 0 [])
     \<lparr>localpkg_gpgcheck = True, installroot = ''/''\<rparr>
     \<lparr>get_repo = \<lparr>get_type = COMMANDLINE, gpgcheck = False\<rparr>, get_package_path = ''/p.rpm''\<rparr>
     \<lparr>log_mask = 63, rpmdb = [], calls = []\<rparr>) = Inr FAILED"
  using check_package_signature_bad_is_failed
    [of "\<lparr>get_repo = \<lparr>get_type = COMMANDLINE, gpgcheck = False\<rparr>, get_package_path = ''/p.rpm''\<rparr>"
        "\<lparr>localpkg_gpgcheck = True, installroot = ''/''\<rparr>"
        "stub_engine 0 1 [''/p.rpm:'', ''    Header RSA signature: NOTTRUSTED'',
          ''    Header SHA256 digest: BAD'', ''    DSA signature: NOKEY'',
          ''    MD5 digest: NOTFOUND''] 0 []"
        1
        "[''/p.rpm:'', ''    Header RSA signature: NOTTRUSTED'',
          ''    Header SHA256 digest: BAD'', ''    DSA signature: NOKEY'',
          ''    MD5 digest: NOTFOUND'']"
        "\<lparr>log_mask = 63, rpmdb = [], calls = []\<rparr>"]
  by (simp add: stub_engine_def RPMRC_OK_def sublist_code(3))

text \<open>
  C2, as stated, fails: the engine reports non-success and the only collected line both
  begins with the package's path and ends with \<open>: NOTTRUSTED\<close>.  The line is skipped as
  a header, so no flag is set and the result is \<open>FAILED\<close>, not \<open>FAILED_NOT_TRUSTED\<close>.
\<close>

theorem check_package_signature_header_counterexample:
  "fst (check_package_signature (stub_engine 0 1 [''/p.rpm: NOTTRUSTED''] 0 [])
     \<lparr>localpkg_gpgcheck = True, installroot = ''/''\<rparr>
     \<lparr>get_repo = \<lparr>get_type = COMMANDLINE, gpgcheck = False\<rparr>, get_package_path = ''/p.rpm''\<rparr>
     \<lparr>log_mask = 63, rpmdb = [], calls = []\<rparr>) = Inr FAILED \<and>
   suffix '': NOTTRUSTED'' ''/p.rpm: NOTTRUSTED'' \<and>
   prefix ''/p.rpm'' ''/p.rpm: NOTTRUSTED'' \<and>
   (1::int) \<noteq> RPMRC_OK"
  by (simp add: check_package_signature_def create_transaction_def call_def rpmlogSetMask_def
      stub_engine_def RPMRC_OK_def starts_with_def suffix_to_prefix)

text \<open>
  C2, amended: the findings are those of the lines that do not begin with the package's
  path.  When the check is required, the session is created, the engine reports
  non-success and no such line contains \<open>: BAD\<close>: if some such line ends with none of
  \<open>: OK\<close>, \<open>: NOKEY\<close>, \<open>: NOTTRUSTED\<close>, \<open>: NOTFOUND\<close> the result is \<open>FAILED\<close>; otherwise
  it is \<open>FAILED_NOT_TRUSTED\<close> if some such line ends with \<open>: NOTTRUSTED\<close>, else
  \<open>FAILED_KEY_MISSING\<close> if some such line ends with \<open>: NOKEY\<close>, else \<open>FAILED_NOT_SIGNED\<close>
  if some such line ends with \<open>: NOTFOUND\<close>, else \<open>FAILED\<close>.
\<close>

theorem check_package_signature_classification:
  assumes "if get_type (get_repo pkg) = COMMANDLINE then localpkg_gpgcheck cfg
           else gpgcheck (get_repo pkg)"
    and "set_root_dir eng (installroot cfg) = 0"
    and "verify_signatures eng (RPMLOG_UPTO (RPMLOG_PRI RPMLOG_INFO)) (get_package_path pkg)
           = (rc, logs)"
    and "rc \<noteq> RPMRC_OK"
    and "\<forall>line\<in>set logs. \<not> prefix (get_package_path pkg) line \<longrightarrow> \<not> sublist '': BAD'' line"
  shows "fst (check_package_signature eng cfg pkg st) =
     Inr (if \<exists>line\<in>set logs. \<not> prefix (get_package_path pkg) line \<and> \<not> suffix '': OK'' line \<and>
               \<not> suffix '': NOKEY'' line \<and> \<not> suffix '': NOTTRUSTED'' line \<and>
               \<not> suffix '': NOTFOUND'' line
          then FAILED
          else if \<exists>line\<in>set logs. \<not> prefix (get_package_path pkg) line \<and>
               suffix '': NOTTRUSTED'' line
          then FAILED_NOT_TRUSTED
          else if \<exists>line\<in>set logs. \<not> prefix (get_package_path pkg) line \<and>
               suffix '': NOKEY'' line
          then FAILED_KEY_MISSING
          else if \<exists>line\<in>set logs. \<not> prefix (get_package_path pkg) line \<and>
               suffix '': NOTFOUND'' line
          then FAILED_NOT_SIGNED
          else FAILED)"
  using assms(4) parse_logs_no_bad [OF assms(5), of False False False]
  by (simp add: check_package_signature_run [OF assms(1-3)])

theorem check_package_signature_classification_witness:
  "fst (check_package_signature
     (stub_engine 0 1 [''/p.rpm:'', ''    Header V4 RSA/SHA256 Signature, key ID 773dd1ba: NOKEY'',
        ''    Header SHA256 digest: OK'', ''    V4 RSA/SHA256 Signature, key ID 12345678: NOTTRUSTED'',
        ''    MD5 digest: NOTFOUND''] 0 [])
     \<lparr>localpkg_gpgcheck = True, installroot = ''/''\<rparr>
     \<lparr>get_repo = \<lparr>get_type = COMMANDLINE, gpgcheck = False\<rparr>, get_package_path = ''/p.rpm''\<rparr>
     \<lparr>log_mask = 63, rpmdb = [], calls = []\<rparr>) = Inr FAILED_NOT_TRUSTED"
  using check_package_signature_classification
    [of "\<lparr>get_repo = \<lparr>get_type = COMMANDLINE, gpgcheck = False\<rparr>, get_package_path = ''/p.rpm''\<rparr>"
        "\<lparr>localpkg_gpgcheck = True, installroot = ''/''\<rparr>"
        "stub_engine 0 1 [''/p.rpm:'', ''    Header V4 RSA/SHA256 Signature, key ID 773dd1ba: NOKEY'',
          ''    Header SHA256 digest: OK'', ''    V4 RSA/SHA256 Signature, key ID 12345678: NOTTRUSTED'',
          ''    MD5 digest: NOTFOUND''] 0 []"
        1
        "[''/p.rpm:'', ''    Header V4 RSA/SHA256 Signature, key ID 773dd1ba: NOKEY'',
          ''    Header SHA256 digest: OK'', ''    V4 RSA/SHA256 Signature, key ID 12345678: NOTTRUSTED'',
          ''    MD5 digest: NOTFOUND'']"
        "\<lparr>log_mask = 63, rpmdb = [], calls = []\<rparr>"]
  by (simp add: stub_engine_def RPMRC_OK_def sublist_code(3) suffix_to_prefix)

text \<open>
  C3.  When the check is required, the session is created and the engine's verify call
  returns success, the result is \<open>OK\<close>, whatever log lines were collected.
\<close>

theorem check_package_signature_engine_ok:
  assumes "if get_type (get_repo pkg) = COMMANDLINE then localpkg_gpgcheck cfg
           else gpgcheck (get_repo pkg)"
    and "set_root_dir eng (installroot cfg) = 0"
    and "verify_signatures eng (RPMLOG_UPTO (RPMLOG_PRI RPMLOG_INFO)) (get_package_path pkg)
           = (RPMRC_OK, logs)"
  shows "fst (check_package_signature eng cfg pkg st) = Inr OK"
  by (simp add: check_package_signature_run [OF assms])

theorem check_package_signature_engine_ok_witness:
  "fst (check_package_signature
     (stub_engine 0 0 [''/repo/p.rpm:'', ''    Header SHA256 digest: BAD'', ''    garbage''] 0 [])
     \<lparr>localpkg_gpgcheck = False, installroot = ''/''\<rparr>
     \<lparr>get_repo = \<lparr>get_type = AVAILABLE, gpgcheck = True\<rparr>, get_package_path = ''/repo/p.rpm''\<rparr>
     \<lparr>log_mask = 63, rpmdb = [], calls = []\<rparr>) = Inr OK"
  using check_package_signature_engine_ok
    [of "\<lparr>get_repo = \<lparr>get_type = AVAILABLE, gpgcheck = True\<rparr>, get_package_path = ''/repo/p.rpm''\<rparr>"
        "\<lparr>localpkg_gpgcheck = False, installroot = ''/''\<rparr>"
        "stub_engine 0 0 [''/repo/p.rpm:'', ''    Header SHA256 digest: BAD'', ''    garbage''] 0 []"
        "[''/repo/p.rpm:'', ''    Header SHA256 digest: BAD'', ''    garbage'']"
        "\<lparr>log_mask = 63, rpmdb = [], calls = []\<rparr>"]
  by (simp add: stub_engine_def RPMRC_OK_def)

text \<open>
  C4.  When the package comes from the command line and \<open>localpkg_gpgcheck\<close> is false, or
  comes from a repository whose \<open>gpgcheck\<close> is false, the result is \<open>OK\<close> and the engine
  is left untouched: no call is made, so no session is created and nothing is verified.
  Otherwise verification runs: a session is created and given the install root, and, when
  the root is accepted, the log mask is raised, the verify entry point is called once on
  the package's path and the mask is put back; when the root is refused the calls stop
  there and \<open>SignatureCheckError\<close> is raised.
\<close>

theorem check_package_signature_policy_gate:
  "(if (get_type (get_repo pkg) = COMMANDLINE \<and> \<not> localpkg_gpgcheck cfg) \<or>
       (get_type (get_repo pkg) \<noteq> COMMANDLINE \<and> \<not> gpgcheck (get_repo pkg))
    then check_package_signature eng cfg pkg st = (Inr OK, st)
    else calls (snd (check_package_signature eng cfg pkg st)) =
           calls st @ [RpmtsCreate, RpmtsSetRootDir (installroot cfg)] @
           (if set_root_dir eng (installroot cfg) = 0
            then [RpmlogSetMask (RPMLOG_UPTO (RPMLOG_PRI RPMLOG_INFO)),
                  RpmtsSetVfyLevel RPMSIG_SIGNATURE_TYPE,
                  RpmcliVerifySignatures [get_package_path pkg],
                  RpmlogSetMask (log_mask st)]
            else []) \<and>
         (set_root_dir eng (installroot cfg) = 0 \<or>
          fst (check_package_signature eng cfg pkg st) =
            Inl (SignatureCheckError msg_root_dir (installroot cfg))))"
proof (cases "if get_type (get_repo pkg) = COMMANDLINE then localpkg_gpgcheck cfg
              else gpgcheck (get_repo pkg)")
  case required: True
  obtain rc logs where v:
    "verify_signatures eng (RPMLOG_UPTO (RPMLOG_PRI RPMLOG_INFO)) (get_package_path pkg)
       = (rc, logs)"
    by (cases "verify_signatures eng (RPMLOG_UPTO (RPMLOG_PRI RPMLOG_INFO))
        (get_package_path pkg)")
  show ?thesis
  proof (cases "set_root_dir eng (installroot cfg) = 0")
    case True
    from required show ?thesis
      by (simp add: check_package_signature_run [OF required True v] True split: if_splits)
  next
    case False
    from required show ?thesis
      by (simp add: check_package_signature_no_session [OF required False] False
          split: if_splits)
  qed
next
  case False
  then have skip: "if get_type (get_repo pkg) = COMMANDLINE then \<not> localpkg_gpgcheck cfg
                   else \<not> gpgcheck (get_repo pkg)"
    by (simp split: if_splits)
  from skip show ?thesis
    by (simp add: check_package_signature_skip [OF skip] split: if_splits)
qed

theorem check_package_signature_policy_gate_witness:
  "check_package_signature (stub_engine 0 1 [''x: BAD''] 0 [])
     \<lparr>localpkg_gpgcheck = False, installroot = ''/''\<rparr>
     \<lparr>get_repo = \<lparr>get_type = COMMANDLINE, gpgcheck = True\<rparr>, get_package_path = ''/p.rpm''\<rparr>
     \<lparr>log_mask = 63, rpmdb = [], calls = []\<rparr>
   = (Inr OK, \<lparr>log_mask = 63, rpmdb = [], calls = []\<rparr>) \<and>
   calls (snd (check_package_signature (stub_engine 0 1 [''x: BAD''] 0 [])
     \<lparr>localpkg_gpgcheck = False, installroot = ''/''\<rparr>
     \<lparr>get_repo = \<lparr>get_type = AVAILABLE, gpgcheck = True\<rparr>, get_package_path = ''/p.rpm''\<rparr>
     \<lparr>log_mask = 63, rpmdb = [], calls = []\<rparr>))
   = [RpmtsCreate, RpmtsSetRootDir ''/'', RpmlogSetMask 127, RpmtsSetVfyLevel 2,
      RpmcliVerifySignatures [''/p.rpm''], RpmlogSetMask 63]"
  using check_package_signature_policy_gate
    [of "\<lparr>get_repo = \<lparr>get_type = COMMANDLINE, gpgcheck = True\<rparr>, get_package_path = ''/p.rpm''\<rparr>"
        "\<lparr>localpkg_gpgcheck = False, installroot = ''/''\<rparr>"
        "stub_engine 0 1 [''x: BAD''] 0 []"
        "\<lparr>log_mask = 63, rpmdb = [], calls = []\<rparr>"]
    check_package_signature_policy_gate
    [of "\<lparr>get_repo = \<lparr>get_type = AVAILABLE, gpgcheck = True\<rparr>, get_package_path = ''/p.rpm''\<rparr>"
        "\<lparr>localpkg_gpgcheck = False, installroot = ''/''\<rparr>"
        "stub_engine 0 1 [''x: BAD''] 0 []"
        "\<lparr>log_mask = 63, rpmdb = [], calls = []\<rparr>"]
  by (simp add: stub_engine_def elevated_mask RPMSIG_SIGNATURE_TYPE_def)

section \<open>Trusted keys\<close>

text \<open>
  C7.  With the session created, \<^verbatim>\<open>key_present\<close> returns true if and only if some
  \<open>gpg-pubkey\<close> record of the database has the key's short id as its version.  The
  database is left as it was.  The iterator is asked for one record more than there are
  \<open>gpg-pubkey\<close> records with another version before the first match: the loop stops at
  the first match, and otherwise at the end of the iterator.
\<close>

theorem key_present_iff:
  assumes "set_root_dir eng (installroot cfg) = 0"
  shows "fst (key_present eng cfg key st) =
           Inr (\<exists>h\<in>set (rpmdb st). hdr_name h = ''gpg-pubkey'' \<and>
                  hdr_version h = get_short_key_id key) \<and>
         rpmdb (snd (key_present eng cfg key st)) = rpmdb st \<and>
         calls (snd (key_present eng cfg key st)) =
           calls st @
           [RpmtsCreate, RpmtsSetRootDir (installroot cfg),
            RpmtsInitIterator RPMDBI_NAME ''gpg-pubkey''] @
           replicate (Suc (length (takeWhile (\<lambda>h. hdr_version h \<noteq> get_short_key_id key)
             (filter (\<lambda>h. hdr_name h = ''gpg-pubkey'') (rpmdb st))))) RpmdbNextIterator @
           [RpmdbFreeIterator]"
  by (simp add: key_present_def create_transaction_ok [OF assms] rpmdb_lookup_eq)

theorem key_present_iff_witness:
  "fst (key_present (stub_engine 0 0 [] 0 []) \<lparr>localpkg_gpgcheck = True, installroot = ''/''\<rparr>
     \<lparr>key_url = ''/k.asc'', key_path = ''/k.asc'', key_id = ''5323552A773DD1BA'',
      user_id = ''u'', fingerprint = ''f'', pkt_ptr = [1, 2], pkt_len = 2\<rparr>
     \<lparr>log_mask = 63,
      rpmdb = [\<lparr>hdr_name = ''bash'', hdr_version = ''773DD1BA''\<rparr>,
               \<lparr>hdr_name = ''gpg-pubkey'', hdr_version = ''11111111''\<rparr>,
               \<lparr>hdr_name = ''gpg-pubkey'', hdr_version = ''773DD1BA''\<rparr>,
               \<lparr>hdr_name = ''gpg-pubkey'', hdr_version = ''22222222''\<rparr>],
      calls = []\<rparr>) = Inr True \<and>
   calls (snd (key_present (stub_engine 0 0 [] 0 []) \<lparr>localpkg_gpgcheck = True, installroot = ''/''\<rparr>
     \<lparr>key_url = ''/k.asc'', key_path = ''/k.asc'', key_id = ''5323552A773DD1BA'',
      user_id = ''u'', fingerprint = ''f'', pkt_ptr = [1, 2], pkt_len = 2\<rparr>
     \<lparr>log_mask = 63,
      rpmdb = [\<lparr>hdr_name = ''bash'', hdr_version = ''773DD1BA''\<rparr>,
               \<lparr>hdr_name = ''gpg-pubkey'', hdr_version = ''11111111''\<rparr>,
               \<lparr>hdr_name = ''gpg-pubkey'', hdr_version = ''773DD1BA''\<rparr>,
               \<lparr>hdr_name = ''gpg-pubkey'', hdr_version = ''22222222''\<rparr>],
      calls = []\<rparr>)) =
     [RpmtsCreate, RpmtsSetRootDir ''/'', RpmtsInitIterator 1000 ''gpg-pubkey'',
      RpmdbNextIterator, RpmdbNextIterator, RpmdbFreeIterator] \<and>
   fst (key_present (stub_engine 0 0 [] 0 []) \<lparr>localpkg_gpgcheck = True, installroot = ''/''\<rparr>
     \<lparr>key_url = ''/k.asc'', key_path = ''/k.asc'', key_id = ''5323552A773DD1BA'',
      user_id = ''u'', fingerprint = ''f'', pkt_ptr = [1, 2], pkt_len = 2\<rparr>
     \<lparr>log_mask = 63, rpmdb = [], calls = []\<rparr>) = Inr False"
  using key_present_iff
    [of "stub_engine 0 0 [] 0 []" "\<lparr>localpkg_gpgcheck = True, installroot = ''/''\<rparr>"
        "\<lparr>key_url = ''/k.asc'', key_path = ''/k.asc'', key_id = ''5323552A773DD1BA'',
          user_id = ''u'', fingerprint = ''f'', pkt_ptr = [1, 2], pkt_len = 2\<rparr>"
        "\<lparr>log_mask = 63,
          rpmdb = [\<lparr>hdr_name = ''bash'', hdr_version = ''773DD1BA''\<rparr>,
                   \<lparr>hdr_name = ''gpg-pubkey'', hdr_version = ''11111111''\<rparr>,
                   \<lparr>hdr_name = ''gpg-pubkey'', hdr_version = ''773DD1BA''\<rparr>,
                   \<lparr>hdr_name = ''gpg-pubkey'', hdr_version = ''22222222''\<rparr>],
          calls = []\<rparr>"]
    key_present_iff
    [of "stub_engine 0 0 [] 0 []" "\<lparr>localpkg_gpgcheck = True, installroot = ''/''\<rparr>"
        "\<lparr>key_url = ''/k.asc'', key_path = ''/k.asc'', key_id = ''5323552A773DD1BA'',
          user_id = ''u'', fingerprint = ''f'', pkt_ptr = [1, 2], pkt_len = 2\<rparr>"
        "\<lparr>log_mask = 63, rpmdb = [], calls = []\<rparr>"]
  by (simp add: stub_engine_def get_short_key_id_def RPMDBI_NAME_def)

text \<open>
  C6.  With the session created: when some \<open>gpg-pubkey\<close> record has the key's short id as
  its version, \<^verbatim>\<open>import_key\<close> returns false, the database is left as it was and the
  calls made are those of the lookup alone, none of them an import.  When no such record
  exists, the lookup is followed by exactly one call of the engine's import, with the
  key's packet and its length; the result is true when the engine returns success, and
  \<open>KeyImportError\<close> with the key's URL when it does not.
\<close>

theorem import_key_once:
  assumes "set_root_dir eng (installroot cfg) = 0"
  shows "if \<exists>h\<in>set (rpmdb st). hdr_name h = ''gpg-pubkey'' \<and>
              hdr_version h = get_short_key_id key
         then fst (import_key eng cfg key st) = Inr False \<and>
              rpmdb (snd (import_key eng cfg key st)) = rpmdb st \<and>
              calls (snd (import_key eng cfg key st)) =
                calls st @
                [RpmtsCreate, RpmtsSetRootDir (installroot cfg),
                 RpmtsInitIterator RPMDBI_NAME ''gpg-pubkey''] @
                replicate (Suc (length (takeWhile (\<lambda>h. hdr_version h \<noteq> get_short_key_id key)
                  (filter (\<lambda>h. hdr_name h = ''gpg-pubkey'') (rpmdb st))))) RpmdbNextIterator @
                [RpmdbFreeIterator]
         else fst (import_key eng cfg key st) =
                (if fst (import_pubkey eng (rpmdb st) (pkt_ptr key) (pkt_len key)) = RPMRC_OK
                 then Inr True
                 else Inl (KeyImportError msg_import (key_url key))) \<and>
              calls (snd (import_key eng cfg key st)) =
                calls st @
                [RpmtsCreate, RpmtsSetRootDir (installroot cfg),
                 RpmtsInitIterator RPMDBI_NAME ''gpg-pubkey''] @
                replicate (Suc (length (filter (\<lambda>h. hdr_name h = ''gpg-pubkey'') (rpmdb st))))
                  RpmdbNextIterator @
                [RpmdbFreeIterator, RpmtsImportPubkey (pkt_ptr key) (pkt_len key)]"
proof -
  let ?found = "\<exists>h\<in>set (rpmdb st). hdr_name h = ''gpg-pubkey'' \<and>
    hdr_version h = get_short_key_id key"
  let ?st1 = "st\<lparr>calls := calls st @ [RpmtsCreate, RpmtsSetRootDir (installroot cfg)]\<rparr>"
  let ?st2 = "st\<lparr>calls := calls st @
    [RpmtsCreate, RpmtsSetRootDir (installroot cfg),
     RpmtsInitIterator RPMDBI_NAME ''gpg-pubkey''] @
    replicate (Suc (length (takeWhile (\<lambda>h. hdr_version h \<noteq> get_short_key_id key)
      (filter (\<lambda>h. hdr_name h = ''gpg-pubkey'') (rpmdb st))))) RpmdbNextIterator @
    [RpmdbFreeIterator]\<rparr>"
  have ct: "create_transaction eng cfg st = (Inr (), ?st1)"
    by (rule create_transaction_ok [OF assms])
  have lk: "rpmdb_lookup key ?st1 = (?found, ?st2)"
    by (simp add: rpmdb_lookup_eq)
  show ?thesis
  proof (cases ?found)
    case True
    then have "?found = True" by blast
    from lk [unfolded this] have "import_key eng cfg key st = (Inr False, ?st2)"
      by (simp add: import_key_def ct)
    with True show ?thesis by simp
  next
    case False
    then have all: "takeWhile (\<lambda>h. hdr_version h \<noteq> get_short_key_id key)
        (filter (\<lambda>h. hdr_name h = ''gpg-pubkey'') (rpmdb st)) =
        filter (\<lambda>h. hdr_name h = ''gpg-pubkey'') (rpmdb st)"
      by auto
    from False have "?found = False" by blast
    from lk [unfolded this] have "import_key eng cfg key st =
        (let (rc, db) = import_pubkey eng (rpmdb st) (pkt_ptr key) (pkt_len key);
             st3 = call (RpmtsImportPubkey (pkt_ptr key) (pkt_len key)) (?st2\<lparr>rpmdb := db\<rparr>)
         in if rc \<noteq> RPMRC_OK then (Inl (KeyImportError msg_import (key_url key)), st3)
            else (Inr True, st3))"
      by (simp add: import_key_def ct)
    with False show ?thesis
      by (simp add: all call_def Let_def split: prod.splits)
  qed
qed

theorem import_key_once_witness:
  "fst (import_key (stub_engine 0 0 [] 0 [\<lparr>hdr_name = ''gpg-pubkey'', hdr_version = ''773DD1BA''\<rparr>])
     \<lparr>localpkg_gpgcheck = True, installroot = ''/''\<rparr>
     \<lparr>key_url = ''/k.asc'', key_path = ''/k.asc'', key_id = ''5323552A773DD1BA'',
      user_id = ''u'', fingerprint = ''f'', pkt_ptr = [1, 2], pkt_len = 2\<rparr>
     \<lparr>log_mask = 63, rpmdb = [\<lparr>hdr_name = ''gpg-pubkey'', hdr_version = ''11111111''\<rparr>],
      calls = []\<rparr>) = Inr True \<and>
   calls (snd (import_key (stub_engine 0 0 [] 0 [\<lparr>hdr_name = ''gpg-pubkey'', hdr_version = ''773DD1BA''\<rparr>])
     \<lparr>localpkg_gpgcheck = True, installroot = ''/''\<rparr>
     \<lparr>key_url = ''/k.asc'', key_path = ''/k.asc'', key_id = ''5323552A773DD1BA'',
      user_id = ''u'', fingerprint = ''f'', pkt_ptr = [1, 2], pkt_len = 2\<rparr>
     \<lparr>log_mask = 63, rpmdb = [\<lparr>hdr_name = ''gpg-pubkey'', hdr_version = ''11111111''\<rparr>],
      calls = []\<rparr>)) =
     [RpmtsCreate, RpmtsSetRootDir ''/'', RpmtsInitIterator 1000 ''gpg-pubkey'',
      RpmdbNextIterator, RpmdbNextIterator, RpmdbFreeIterator, RpmtsImportPubkey [1, 2] 2] \<and>
   fst (import_key (stub_engine 0 0 [] 0 [\<lparr>hdr_name = ''gpg-pubkey'', hdr_version = ''773DD1BA''\<rparr>])
     \<lparr>localpkg_gpgcheck = True, installroot = ''/''\<rparr>
     \<lparr>key_url = ''/k.asc'', key_path = ''/k.asc'', key_id = ''5323552A773DD1BA'',
      user_id = ''u'', fingerprint = ''f'', pkt_ptr = [1, 2], pkt_len = 2\<rparr>
     \<lparr>log_mask = 63, rpmdb = [\<lparr>hdr_name = ''gpg-pubkey'', hdr_version = ''773DD1BA''\<rparr>],
      calls = []\<rparr>) = Inr False \<and>
   fst (import_key (stub_engine 0 0 [] 2 [])
     \<lparr>localpkg_gpgcheck = True, installroot = ''/''\<rparr>
     \<lparr>key_url = ''/k.asc'', key_path = ''/k.asc'', key_id = ''5323552A773DD1BA'',
      user_id = ''u'', fingerprint = ''f'', pkt_ptr = [1, 2], pkt_len = 2\<rparr>
     \<lparr>log_mask = 63, rpmdb = [], calls = []\<rparr>) = Inl (KeyImportError msg_import ''/k.asc'')"
  using import_key_once
    [of "stub_engine 0 0 [] 2 []"
        "\<lparr>localpkg_gpgcheck = True, installroot = ''/''\<rparr>"
        "\<lparr>log_mask = 63, rpmdb = [], calls = []\<rparr>"
        "\<lparr>key_url = ''/k.asc'', key_path = ''/k.asc'', key_id = ''5323552A773DD1BA'',
          user_id = ''u'', fingerprint = ''f'', pkt_ptr = [1, 2], pkt_len = 2\<rparr>"]
    import_key_once
    [of "stub_engine 0 0 [] 0 [\<lparr>hdr_name = ''gpg-pubkey'', hdr_version = ''773DD1BA''\<rparr>]"
        "\<lparr>localpkg_gpgcheck = True, installroot = ''/''\<rparr>"
        "\<lparr>log_mask = 63, rpmdb = [\<lparr>hdr_name = ''gpg-pubkey'', hdr_version = ''11111111''\<rparr>],
          calls = []\<rparr>"
        "\<lparr>key_url = ''/k.asc'', key_path = ''/k.asc'', key_id = ''5323552A773DD1BA'',
          user_id = ''u'', fingerprint = ''f'', pkt_ptr = [1, 2], pkt_len = 2\<rparr>"]
    import_key_once
    [of "stub_engine 0 0 [] 0 [\<lparr>hdr_name = ''gpg-pubkey'', hdr_version = ''773DD1BA''\<rparr>]"
        "\<lparr>localpkg_gpgcheck = True, installroot = ''/''\<rparr>"
        "\<lparr>log_mask = 63, rpmdb = [\<lparr>hdr_name = ''gpg-pubkey'', hdr_version = ''773DD1BA''\<rparr>],
          calls = []\<rparr>"
        "\<lparr>key_url = ''/k.asc'', key_path = ''/k.asc'', key_id = ''5323552A773DD1BA'',
          user_id = ''u'', fingerprint = ''f'', pkt_ptr = [1, 2], pkt_len = 2\<rparr>"]
  by (simp add: stub_engine_def get_short_key_id_def RPMDBI_NAME_def RPMRC_OK_def)

section \<open>Key construction\<close>

text \<open>
  C8, as stated, fails: the file at a local path exists and \<^verbatim>\<open>pgpReadPkts\<close> reports an
  armored public key with a packet of length zero.  The constructor makes no test of its
  own: construction succeeds and the stored packet is empty.
\<close>

theorem KeyInfo_new_empty_packet_counterexample:
  "fst (KeyInfo_new (stub_key_env False ''/tmp/rpmkey.0'' None [] (2, [], 0)) ''/etc/key.asc''
     (no_files(''/etc/key.asc'' \<mapsto> [45, 45]))) =
   Inr \<lparr>key_url = ''/etc/key.asc'', key_path = ''/etc/key.asc'', key_id = [], user_id = [],
        fingerprint = [], pkt_ptr = [], pkt_len = 0\<rparr>"
  by (simp add: KeyInfo_new_def resolve_key_path_def read_key_def stub_key_env_def
      PGPARMOR_PUBKEY_def)

text \<open>
  C8, amended.  Once the reference is resolved to a path whose file can be opened,
  construction fails exactly when the armor type that \<^verbatim>\<open>pgpReadPkts\<close> reports for the
  file is not \<open>PGPARMOR_PUBKEY\<close>, and the failure is the \<open>KeyImportError\<close> that carries the
  original reference string.  When construction succeeds, the stored packet and length are
  the ones \<^verbatim>\<open>pgpReadPkts\<close> returned.
\<close>

theorem KeyInfo_new_armor_check:
  assumes "resolve_key_path env url fs = (Inr path, fs1, tmp)"
    and "fs1 path = Some content"
  shows "fst (KeyInfo_new env url fs) =
     (if fst (pgpReadPkts env content) \<noteq> PGPARMOR_PUBKEY
      then Inl (KeyImportError msg_not_armored url)
      else Inr \<lparr>key_url = url, key_path = path,
                key_id = fst (assign_key_infos (rawkey2infos env content) ([], [], [])),
                user_id = fst (snd (assign_key_infos (rawkey2infos env content) ([], [], []))),
                fingerprint = snd (snd (assign_key_infos (rawkey2infos env content) ([], [], []))),
                pkt_ptr = fst (snd (pgpReadPkts env content)),
                pkt_len = snd (snd (pgpReadPkts env content))\<rparr>)"
  by (simp only: KeyInfo_new_resolved [OF assms(1)] read_key_opened [of fs1 path content, OF assms(2)])

theorem KeyInfo_new_armor_check_witness:
  "fst (KeyInfo_new (stub_key_env True ''/tmp/rpmkey.0'' None
       [\<lparr>get_id = ''5323552A773DD1BA'', get_user_id = ''Packager'', get_fingerprint = ''F00D''\<rparr>]
       (1, [], 0))
     ''file:///etc/key.asc'' (no_files(''/etc/key.asc'' \<mapsto> [45, 45]))) =
   Inl (KeyImportError msg_not_armored ''file:///etc/key.asc'') \<and>
   fst (KeyInfo_new (stub_key_env True ''/tmp/rpmkey.0'' None
       [\<lparr>get_id = ''5323552A773DD1BA'', get_user_id = ''Packager'', get_fingerprint = ''F00D''\<rparr>]
       (2, [153, 1, 13], 3))
     ''file:///etc/key.asc'' (no_files(''/etc/key.asc'' \<mapsto> [45, 45]))) =
   Inr \<lparr>key_url = ''file:///etc/key.asc'', key_path = ''/etc/key.asc'',
        key_id = ''5323552A773DD1BA'', user_id = ''Packager'', fingerprint = ''F00D'',
        pkt_ptr = [153, 1, 13], pkt_len = 3\<rparr>"
  using KeyInfo_new_armor_check
    [of "stub_key_env True ''/tmp/rpmkey.0'' None
          [\<lparr>get_id = ''5323552A773DD1BA'', get_user_id = ''Packager'', get_fingerprint = ''F00D''\<rparr>]
          (1, [], 0)"
        "''file:///etc/key.asc''" "no_files(''/etc/key.asc'' \<mapsto> [45, 45])"
        "''/etc/key.asc''" "no_files(''/etc/key.asc'' \<mapsto> [45, 45])" None "[45, 45]"]
    KeyInfo_new_armor_check
    [of "stub_key_env True ''/tmp/rpmkey.0'' None
          [\<lparr>get_id = ''5323552A773DD1BA'', get_user_id = ''Packager'', get_fingerprint = ''F00D''\<rparr>]
          (2, [153, 1, 13], 3)"
        "''file:///etc/key.asc''" "no_files(''/etc/key.asc'' \<mapsto> [45, 45])"
        "''/etc/key.asc''" "no_files(''/etc/key.asc'' \<mapsto> [45, 45])" None "[45, 45]"]
  by (simp add: resolve_key_path_def stub_key_env_def starts_with_def PGPARMOR_PUBKEY_def)

text \<open>
  C9, as stated, fails: a key is fetched from a remote URL and construction succeeds.  The
  object exists, its path is the temporary file's, and the file is already gone: its
  owner is a local of the constructor, destroyed on leaving it.
\<close>

theorem KeyInfo_new_temp_file_counterexample:
  "fst (KeyInfo_new (stub_key_env True ''/tmp/rpmkey.0'' (Some [45, 45]) [] (2, [153, 1, 13], 3))
     ''https://example.org/key.asc'' no_files) =
   Inr \<lparr>key_url = ''https://example.org/key.asc'', key_path = ''/tmp/rpmkey.0'', key_id = [],
        user_id = [], fingerprint = [], pkt_ptr = [153, 1, 13], pkt_len = 3\<rparr> \<and>
   snd (KeyInfo_new (stub_key_env True ''/tmp/rpmkey.0'' (Some [45, 45]) [] (2, [153, 1, 13], 3))
     ''https://example.org/key.asc'' no_files) ''/tmp/rpmkey.0'' = None"
  by (simp add: KeyInfo_new_def resolve_key_path_def read_key_def stub_key_env_def
      TempFile_create_def TempFile_destroy_def starts_with_def PGPARMOR_PUBKEY_def Let_def)

text \<open>
  C9, amended.  For every remote (non-file) URL reference, the temporary file that holds
  the downloaded key is deleted when the constructor is left, whether construction
  succeeded or failed on the way: the file system after the constructor is the one
  before it without the temporary path.
\<close>

theorem KeyInfo_new_temp_file_deleted:
  assumes "is_url env url" and "\<not> prefix ''file://'' url"
  shows "snd (KeyInfo_new env url fs) = fs(temp_path env ''rpmkey'' := None)"
  using assms
  by (simp add: KeyInfo_new_def resolve_key_path_def starts_with_prefix TempFile_create_def
      TempFile_destroy_def Let_def split: option.splits)

theorem KeyInfo_new_temp_file_deleted_witness:
  "snd (KeyInfo_new (stub_key_env True ''/tmp/rpmkey.0'' None [] (2, [153, 1, 13], 3))
     ''https://example.org/key.asc'' (no_files(''/etc/key.asc'' \<mapsto> [45, 45]))) =
   (no_files(''/etc/key.asc'' \<mapsto> [45, 45]))(''/tmp/rpmkey.0'' := None) \<and>
   fst (KeyInfo_new (stub_key_env True ''/tmp/rpmkey.0'' None [] (2, [153, 1, 13], 3))
     ''https://example.org/key.asc'' (no_files(''/etc/key.asc'' \<mapsto> [45, 45]))) =
   Inl (DownloadError ''https://example.org/key.asc'')"
  using KeyInfo_new_temp_file_deleted
    [of "stub_key_env True ''/tmp/rpmkey.0'' None [] (2, [153, 1, 13], 3)"
        "''https://example.org/key.asc''" "no_files(''/etc/key.asc'' \<mapsto> [45, 45])"]
  by (simp add: KeyInfo_new_def resolve_key_path_def stub_key_env_def starts_with_def Let_def)

text \<open>
  C10.  When the reference is resolved to a path whose file can be opened, the extractor
  finds no entry in it and \<^verbatim>\<open>pgpReadPkts\<close> reads it as an armored public key,
  construction succeeds with empty \<open>key_id\<close>, \<open>user_id\<close> and \<open>fingerprint\<close>, and the short
  key id of the object is empty.
\<close>

theorem KeyInfo_new_no_identity:
  assumes "resolve_key_path env url fs = (Inr path, fs1, tmp)"
    and "fs1 path = Some content"
    and "rawkey2infos env content = []"
    and "fst (pgpReadPkts env content) = PGPARMOR_PUBKEY"
  shows "\<exists>key. fst (KeyInfo_new env url fs) = Inr key \<and> key_id key = [] \<and> user_id key = [] \<and>
           fingerprint key = [] \<and> get_short_key_id key = []"
proof -
  have "fst (KeyInfo_new env url fs) =
      Inr \<lparr>key_url = url, key_path = path, key_id = [], user_id = [], fingerprint = [],
           pkt_ptr = fst (snd (pgpReadPkts env content)),
           pkt_len = snd (snd (pgpReadPkts env content))\<rparr>"
    using assms(3,4)
    by (simp add: KeyInfo_new_resolved [OF assms(1)] read_key_opened [of fs1 path content, OF assms(2)])
  then show ?thesis
    by (simp add: get_short_key_id_def)
qed

theorem KeyInfo_new_no_identity_witness:
  "fst (KeyInfo_new (stub_key_env False ''/tmp/rpmkey.0'' None [] (2, [153, 1, 13], 3))
     ''/etc/key.asc'' (no_files(''/etc/key.asc'' \<mapsto> [45, 45]))) =
   Inr \<lparr>key_url = ''/etc/key.asc'', key_path = ''/etc/key.asc'', key_id = [], user_id = [],
        fingerprint = [], pkt_ptr = [153, 1, 13], pkt_len = 3\<rparr> \<and>
   get_short_key_id \<lparr>key_url = ''/etc/key.asc'', key_path = ''/etc/key.asc'', key_id = [],
        user_id = [], fingerprint = [], pkt_ptr = [153, 1, 13], pkt_len = 3\<rparr> = []"
  using KeyInfo_new_no_identity
    [of "stub_key_env False ''/tmp/rpmkey.0'' None [] (2, [153, 1, 13], 3)"
        "''/etc/key.asc''" "no_files(''/etc/key.asc'' \<mapsto> [45, 45])"
        "''/etc/key.asc''" "no_files(''/etc/key.asc'' \<mapsto> [45, 45])" None "[45, 45]"]
  by (simp add: KeyInfo_new_def resolve_key_path_def read_key_def stub_key_env_def
      PGPARMOR_PUBKEY_def get_short_key_id_def)


end
